theory Spec2Isabelle
  imports Main
begin

section \<open>The xds-common HTTP client (golib/httpclient.go)\<close>

text \<open>
  A shallow embedding of the session negotiation and request pipeline of
  \<^verbatim>\<open>golib/httpclient.go\<close>. Go strings are byte strings (\<open>string\<close>), the
  mutable \<^verbatim>\<open>*HTTPClient\<close> is a record that every function takes and returns, and
  the network is a script of the outcomes of the successive \<^verbatim>\<open>httpClient.Do\<close>
  calls. The logger only writes lines to its sink and is left out, and so are
  the JSON verbs \<^verbatim>\<open>Get\<close>, \<^verbatim>\<open>Post\<close>, \<^verbatim>\<open>Put\<close> and \<^verbatim>\<open>Delete\<close>, which wrap
  \<^verbatim>\<open>_HTTPRequest\<close>.
\<close>

subsection \<open>Go values: errors, panics, results\<close>

text \<open>
  The \<^verbatim>\<open>error\<close> values the file can return: \<^verbatim>\<open>errors.New(s)\<close>,
  \<^verbatim>\<open>fmt.Errorf(s)\<close> called with the format \<open>s\<close> and no operand (its text is
  \<open>s\<close> itself when \<open>s\<close> has no \<^verbatim>\<open>%\<close>), the error of \<^verbatim>\<open>httpClient.Do\<close> and
  the error of \<^verbatim>\<open>http.NewRequest\<close>.
\<close>

datatype error =
    errors_New string
  | fmt_Errorf string
  | TransportError string
  | RequestError string

text \<open>
  The two run-time panics of the file: the slice expression \<^verbatim>\<open>c.id[:5]\<close> on a
  string shorter than 5 bytes, and the type assertion \<^verbatim>\<open>err.(string)\<close> on a value
  that is not a string. \<open>NilDereference\<close> stands for reading a field of a nil
  \<^verbatim>\<open>*http.Response\<close>.
\<close>

datatype panic = SliceBoundsOutOfRange | InterfaceConversion | NilDereference

text \<open>
  A run of a function either returns, panics, or needs an outcome of the network
  that the script does not hold (\<open>Starved\<close>): a run that is \<open>Starved\<close> on every
  finite script never returns.
\<close>

datatype 'a exec = Starved | Panic panic | Return 'a

subsection \<open>Requests, responses and the network\<close>

text \<open>
  A request as \<^verbatim>\<open>http.NewRequest\<close> builds it; \<open>Header\<close> is the sequence of
  \<^verbatim>\<open>Header.Set\<close> calls made on it, \<open>BasicAuth\<close> the argument of \<^verbatim>\<open>SetBasicAuth\<close>.
\<close>

record request =
  Method :: string
  URL :: string
  ReqBody :: "string option"
  Header :: "(string \<times> string) list"
  BasicAuth :: "(string \<times> string) option"

text \<open>
  A response as the client reads it: \<open>Header_Get r k\<close> is what
  \<^verbatim>\<open>response.Header.Get(k)\<close> returns (the empty string for an absent header),
  \<open>Cookies\<close> the (Name, Value) pairs of \<^verbatim>\<open>response.Cookies()\<close> in order, and
  \<open>Body\<close> the bytes of the body stream that have not been read yet.
\<close>

record response =
  StatusCode :: int
  Status :: string
  Header_Get :: "string \<Rightarrow> string"
  Cookies :: "(string \<times> string) list"
  Body :: string

text \<open>\<^verbatim>\<open>httpClient.Do\<close> returns a response or a transport error.\<close>

datatype outcome = Receive response | Fail error

record world =
  pending :: "outcome list"
  sent :: "request list"

text \<open>
  The library functions whose results depend on code outside the repository are
  parameters: \<open>NewRequest_err m u\<close> is the error of \<^verbatim>\<open>http.NewRequest(m, u, _)\<close>
  if it rejects the method or the URL, and \<open>json_Unmarshal b\<close> is the content of
  the map \<^verbatim>\<open>data\<close> after \<^verbatim>\<open>json.Unmarshal(b, &data)\<close> (empty when \<open>b\<close> is not a
  JSON object).
\<close>

datatype jvalue = JString string | JOther

record golib =
  NewRequest_err :: "string \<Rightarrow> string \<Rightarrow> error option"
  json_Unmarshal :: "string \<Rightarrow> string \<Rightarrow> jvalue option"

definition NewRequest :: "golib \<Rightarrow> string \<Rightarrow> string \<Rightarrow> string option \<Rightarrow> error + request" where
  "NewRequest lib method url body =
     (case NewRequest_err lib method url of
        Some err \<Rightarrow> Inl err
      | None \<Rightarrow> Inr \<lparr>Method = method, URL = url, ReqBody = body, Header = [], BasicAuth = None\<rparr>)"

definition Header_Set :: "request \<Rightarrow> string \<Rightarrow> string \<Rightarrow> request" where
  "Header_Set r k v = r\<lparr>Header := Header r @ [(k, v)]\<rparr>"

subsection \<open>The strings package\<close>

definition HasSuffix :: "string \<Rightarrow> string \<Rightarrow> bool" where
  "HasSuffix s suf = (length suf \<le> length s \<and> drop (length s - length suf) s = suf)"

definition TrimLeft :: "string \<Rightarrow> string \<Rightarrow> string" where
  "TrimLeft s cutset = dropWhile (\<lambda>ch. ch \<in> set cutset) s"

text \<open>
  The ASCII white space of \<^verbatim>\<open>strings.TrimSpace\<close>: tab, LF, VT, FF, CR and space.
  Go also trims the Unicode white space beyond ASCII, which \<open>TrimSpace\<close> here leaves
  in place; the one call of the file passes it a body that has already been read,
  the empty string.
\<close>

definition isSpace :: "char \<Rightarrow> bool" where
  "isSpace ch = (ch \<in> set [CHR 0x09, CHR 0x0A, CHR 0x0B, CHR 0x0C, CHR 0x0D, CHR 0x20])"

definition TrimSpace :: "string \<Rightarrow> string" where
  "TrimSpace s = rev (dropWhile isSpace (rev (dropWhile isSpace s)))"

subsection \<open>The client\<close>

record HTTPClientConfig =
  URLPrefix :: string
  HeaderAPIKeyName :: string
  Apikey :: string
  HeaderClientKeyName :: string
  CsrfDisable :: bool
  LogLevel :: int
  LogPrefix :: string

text \<open>The field \<^verbatim>\<open>id\<close> is \<open>id_str\<close> here (\<open>id\<close> is the identity function of HOL).\<close>

record HTTPClient =
  LoggerLevel :: int
  LoggerPrefix :: string
  initDone :: bool
  endpoint :: string
  apikey :: string
  username :: string
  password :: string
  id_str :: string
  csrf :: string
  conf :: HTTPClientConfig

text \<open>
  \<^verbatim>\<open>ResponseToBArray\<close> reads the body to its end and closes it: it returns the
  unread bytes and leaves none.
\<close>

definition ResponseToBArray :: "response \<Rightarrow> string \<times> response" where
  "ResponseToBArray r = (Body r, r\<lparr>Body := []\<rparr>)"

text \<open>\<^verbatim>\<open>formatURL\<close> (lines 361-371).\<close>

definition formatURL :: "HTTPClient \<Rightarrow> string \<Rightarrow> string" where
  "formatURL c endURL =
     (let url = endpoint c;
          url = (if \<not> HasSuffix url ''/'' then url @ ''/'' else url);
          url = url @ TrimLeft (URLPrefix (conf c)) ''/'';
          url = (if \<not> HasSuffix url ''/'' then url @ ''/'' else url)
      in url @ TrimLeft endURL ''/'')"

text \<open>
  The head of \<^verbatim>\<open>handleRequest\<close> (lines 296-307): the credentials are attached
  to the request. \<^verbatim>\<open>c.id[:5]\<close> panics when the ID has fewer than 5 bytes.
\<close>

definition setHeaders :: "HTTPClient \<Rightarrow> request \<Rightarrow> request exec" where
  "setHeaders c request =
     (let r1 = (if HeaderAPIKeyName (conf c) \<noteq> [] \<and> apikey c \<noteq> []
                then Header_Set request (HeaderAPIKeyName (conf c)) (apikey c) else request);
          r2 = (if HeaderClientKeyName (conf c) \<noteq> [] \<and> id_str c \<noteq> []
                then Header_Set r1 (HeaderClientKeyName (conf c)) (id_str c) else r1);
          r3 = (if username c \<noteq> [] \<or> password c \<noteq> []
                then r2\<lparr>BasicAuth := Some (username c, password c)\<rparr> else r2)
      in if csrf c \<noteq> []
         then (if length (id_str c) < 5 then Panic SliceBoundsOutOfRange
               else Return (Header_Set r3 (''X-CSRF-Token-'' @ take 5 (id_str c)) (csrf c)))
         else Return r3)"

text \<open>
  The cookie loop of \<^verbatim>\<open>handleRequest\<close> (lines 324-331): the first cookie with the
  expected name wins, and the loop is left through \<^verbatim>\<open>goto csrffound\<close>. The result
  is the CSRF token after the loop.
\<close>

fun scanCookies :: "string \<Rightarrow> (string \<times> string) list \<Rightarrow> string \<Rightarrow> string exec" where
  "scanCookies i [] tok = Return tok"
| "scanCookies i ((name, val) # items) tok =
     (if i \<noteq> []
      then (if length i < 5 then Panic SliceBoundsOutOfRange
            else if name = ''CSRF-Token-'' @ take 5 i then Return val
            else scanCookies i items tok)
      else scanCookies i items tok)"

text \<open>
  Lines 317-331 of \<^verbatim>\<open>handleRequest\<close>: the client ID and the CSRF token are
  taken from the response.
\<close>

definition detectChange :: "HTTPClient \<Rightarrow> response \<Rightarrow> HTTPClient exec" where
  "detectChange c response =
     (let cid = Header_Get response (HeaderClientKeyName (conf c));
          c1 = (if cid \<noteq> [] \<and> id_str c \<noteq> cid then c\<lparr>id_str := cid\<rparr> else c)
      in case scanCookies (id_str c1) (Cookies response) (csrf c1) of
           Starved \<Rightarrow> Starved
         | Panic p \<Rightarrow> Panic p
         | Return tok \<Rightarrow> Return (c1\<lparr>csrf := tok\<rparr>))"

text \<open>
  The branch of \<^verbatim>\<open>handleRequest\<close> for a status other than 200, 401, 403 and 404
  (lines 345-355). The body is read twice through \<^verbatim>\<open>ResponseToBArray\<close>.
\<close>

definition otherStatus :: "golib \<Rightarrow> response \<Rightarrow> error exec" where
  "otherStatus lib response =
     (let (b1, response1) = ResponseToBArray response
      in case json_Unmarshal lib b1 ''error'' of
           Some (JString s) \<Rightarrow> Return (fmt_Errorf s)
         | Some JOther \<Rightarrow> Panic InterfaceConversion
         | None \<Rightarrow>
             (let (b2, response2) = ResponseToBArray response1;
                  body = TrimSpace b2
              in if body \<noteq> [] then Return (fmt_Errorf body)
                 else Return (errors_New (''Unknown HTTP status returned: '' @ Status response))))"

text \<open>
  \<^verbatim>\<open>handleRequest\<close> (lines 295-358) and \<^verbatim>\<open>getCidAndCsrf\<close> (lines 374-393) call
  each other. A result is the client, the world, and the Go result pair.
\<close>

function handleRequest ::
    "golib \<Rightarrow> HTTPClient \<Rightarrow> world \<Rightarrow> request
       \<Rightarrow> (HTTPClient \<times> world \<times> response option \<times> error option) exec"
  and getCidAndCsrf ::
    "golib \<Rightarrow> HTTPClient \<Rightarrow> world \<Rightarrow> (HTTPClient \<times> world \<times> error option) exec"
where
  "handleRequest lib c w request =
     (case setHeaders c request of
        Starved \<Rightarrow> Starved
      | Panic p \<Rightarrow> Panic p
      | Return request' \<Rightarrow>
         (case pending w of
            [] \<Rightarrow> Starved
          | Fail err # rest \<Rightarrow>
              Return (c, \<lparr>pending = rest, sent = sent w @ [request']\<rparr>, None, Some err)
          | Receive response # rest \<Rightarrow>
             (case detectChange c response of
                Starved \<Rightarrow> Starved
              | Panic p \<Rightarrow> Panic p
              | Return c' \<Rightarrow>
                 (let w' = \<lparr>pending = rest, sent = sent w @ [request']\<rparr> in
                  if StatusCode response = 404
                  then Return (c', w', None, Some (errors_New ''Invalid endpoint or API call''))
                  else if StatusCode response = 401
                  then Return (c', w', None, Some (errors_New ''Invalid username or password''))
                  else if StatusCode response = 403
                  then (if apikey c' = []
                        then (case getCidAndCsrf lib c' w' of
                                Starved \<Rightarrow> Starved
                              | Panic p \<Rightarrow> Panic p
                              | Return (c'', w'', _) \<Rightarrow>
                                  Return (c'', w'', None, Some (errors_New ''Invalid CSRF token'')))
                        else Return (c', w', None, Some (errors_New ''Invalid API key'')))
                  else if StatusCode response \<noteq> 200
                  then (case otherStatus lib response of
                          Starved \<Rightarrow> Starved
                        | Panic p \<Rightarrow> Panic p
                        | Return err \<Rightarrow> Return (c', w', None, Some err))
                  else Return (c', w', Some response, None)))))"
| "getCidAndCsrf lib c w =
     (if apikey c \<noteq> [] then Return (c, w, None)
      else case NewRequest lib ''GET'' (endpoint c) None of
             Inl err \<Rightarrow> Return (c, w, Some err)
           | Inr request \<Rightarrow>
              (case handleRequest lib c w request of
                 Starved \<Rightarrow> Starved
               | Panic p \<Rightarrow> Panic p
               | Return (c', w', _, Some err) \<Rightarrow> Return (c', w', Some err)
               | Return (c', w', _, None) \<Rightarrow>
                  if id_str c' = [] then Return (c', w', Some (errors_New ''Failed to get device ID''))
                  else if \<not> CsrfDisable (conf c') \<and> csrf c' = []
                  then Return (c', w', Some (errors_New ''Failed to get CSRF token''))
                  else Return (c', w', None)))"
  by pat_completeness auto
termination
  by (relation "measure (\<lambda>x. case x of
         Inl (lib, c, w, request) \<Rightarrow> 2 * length (pending w)
       | Inr (lib, c, w) \<Rightarrow> 2 * length (pending w) + 1)") auto

declare handleRequest.simps [simp del] getCidAndCsrf.simps [simp del]

text \<open>
  \<^verbatim>\<open>_HTTPRequest\<close> (lines 262-293), named \<open>u_HTTPRequest\<close> here. The argument
  \<open>data\<close> is \<open>None\<close> for a nil \<^verbatim>\<open>*[]byte\<close> and \<open>Some buf\<close> for a pointer to a
  buffer that holds \<open>buf\<close>; the buffer after the call is part of the result.
\<close>

definition u_HTTPRequest ::
    "golib \<Rightarrow> HTTPClient \<Rightarrow> world \<Rightarrow> string \<Rightarrow> string \<Rightarrow> string option \<Rightarrow> string option
       \<Rightarrow> (HTTPClient \<times> world \<times> string option \<times> response option \<times> error option) exec" where
  "u_HTTPRequest lib c w method url body data =
     (case (if \<not> initDone c
            then (case getCidAndCsrf lib c w of
                    Starved \<Rightarrow> Starved
                  | Panic p \<Rightarrow> Panic p
                  | Return (c', w', None) \<Rightarrow> Return (c'\<lparr>initDone := True\<rparr>, w')
                  | Return (c', w', Some err) \<Rightarrow> Return (c', w'))
            else Return (c, w)) of
        Starved \<Rightarrow> Starved
      | Panic p \<Rightarrow> Panic p
      | Return (c1, w1) \<Rightarrow>
         (case NewRequest lib method (formatURL c1 url) body of
            Inl err \<Rightarrow> Return (c1, w1, data, None, Some err)
          | Inr request \<Rightarrow>
             (case handleRequest lib c1 w1 request of
                Starved \<Rightarrow> Starved
              | Panic p \<Rightarrow> Panic p
              | Return (c2, w2, res, err) \<Rightarrow>
                 (case err of
                    Some e \<Rightarrow> Return (c2, w2, data, res, Some e)
                  | None \<Rightarrow>
                     (case res of
                        None \<Rightarrow> Panic NilDereference
                      | Some r \<Rightarrow>
                         if StatusCode r \<noteq> 200
                         then Return (c2, w2, data, Some r, Some (errors_New (Status r)))
                         else (case data of
                                 None \<Rightarrow> Return (c2, w2, None, Some r, None)
                               | Some buf \<Rightarrow>
                                  (let (bytes, r') = ResponseToBArray r
                                   in Return (c2, w2, Some bytes, Some r', None))))))))"

text \<open>The low-level verbs (lines 174-216).\<close>

definition dropRes ::
    "(HTTPClient \<times> world \<times> string option \<times> response option \<times> error option) exec
       \<Rightarrow> (HTTPClient \<times> world \<times> string option \<times> error option) exec" where
  "dropRes x = (case x of Starved \<Rightarrow> Starved | Panic p \<Rightarrow> Panic p
                | Return (c, w, data, res, err) \<Rightarrow> Return (c, w, data, err))"

definition HTTPGetWithRes ::
    "golib \<Rightarrow> HTTPClient \<Rightarrow> world \<Rightarrow> string \<Rightarrow> string option
       \<Rightarrow> (HTTPClient \<times> world \<times> string option \<times> response option \<times> error option) exec" where
  "HTTPGetWithRes lib c w url data = u_HTTPRequest lib c w ''GET'' url None data"

definition HTTPGet ::
    "golib \<Rightarrow> HTTPClient \<Rightarrow> world \<Rightarrow> string \<Rightarrow> string option
       \<Rightarrow> (HTTPClient \<times> world \<times> string option \<times> error option) exec" where
  "HTTPGet lib c w url data = dropRes (u_HTTPRequest lib c w ''GET'' url None data)"

definition HTTPPostWithRes ::
    "golib \<Rightarrow> HTTPClient \<Rightarrow> world \<Rightarrow> string \<Rightarrow> string
       \<Rightarrow> (HTTPClient \<times> world \<times> string option \<times> response option \<times> error option) exec" where
  "HTTPPostWithRes lib c w url body = u_HTTPRequest lib c w ''POST'' url (Some body) None"

definition HTTPPutWithRes ::
    "golib \<Rightarrow> HTTPClient \<Rightarrow> world \<Rightarrow> string \<Rightarrow> string
       \<Rightarrow> (HTTPClient \<times> world \<times> string option \<times> response option \<times> error option) exec" where
  "HTTPPutWithRes lib c w url body = u_HTTPRequest lib c w ''PUT'' url (Some body) None"

definition HTTPDeleteWithRes ::
    "golib \<Rightarrow> HTTPClient \<Rightarrow> world \<Rightarrow> string
       \<Rightarrow> (HTTPClient \<times> world \<times> string option \<times> response option \<times> error option) exec" where
  "HTTPDeleteWithRes lib c w url = u_HTTPRequest lib c w ''DELETE'' url None None"

text \<open>
  \<^verbatim>\<open>HTTPNewClient\<close> (lines 59-98). The commented-out user and password are the
  empty strings of a fresh struct; so are \<^verbatim>\<open>id\<close> and \<^verbatim>\<open>csrf\<close>.
\<close>

definition newClient :: "string \<Rightarrow> HTTPClientConfig \<Rightarrow> HTTPClient" where
  "newClient baseURL cfg =
     \<lparr>LoggerLevel = LogLevel cfg, LoggerPrefix = LogPrefix cfg, initDone = False,
      endpoint = baseURL, apikey = Apikey cfg, username = [], password = [],
      id_str = [], csrf = [], conf = cfg\<rparr>"

definition HTTPNewClient ::
    "golib \<Rightarrow> string \<Rightarrow> HTTPClientConfig \<Rightarrow> world \<Rightarrow> (HTTPClient \<times> world \<times> error option) exec" where
  "HTTPNewClient lib baseURL cfg w =
     (case getCidAndCsrf lib (newClient baseURL cfg) w of
        Starved \<Rightarrow> Starved
      | Panic p \<Rightarrow> Panic p
      | Return (client, w', Some err) \<Rightarrow> Return (client, w', Some err)
      | Return (client, w', None) \<Rightarrow> Return (client\<lparr>initDone := True\<rparr>, w', None))"

subsection \<open>Example values\<close>

text \<open>
  A library whose \<^verbatim>\<open>http.NewRequest\<close> accepts every request and whose JSON decoder
  knows the two objects of the examples, the configuration of a cookie-mode
  client, and responses by status, client-ID header, cookies and body.
\<close>

definition exampleLib :: golib where
  "exampleLib =
     \<lparr>NewRequest_err = (\<lambda>m u. None),
      json_Unmarshal = (\<lambda>b k. if b = ''{\"error\":\"disk full\"}'' \<and> k = ''error''
                               then Some (JString ''disk full'')
                               else if b = ''{\"error\":5}'' \<and> k = ''error''
                               then Some JOther else None)\<rparr>"

definition cookieConfig :: HTTPClientConfig where
  "cookieConfig =
     \<lparr>URLPrefix = ''rest'', HeaderAPIKeyName = ''X-API-Key'', Apikey = [],
      HeaderClientKeyName = ''ClientID'', CsrfDisable = False, LogLevel = 1, LogPrefix = []\<rparr>"

definition apikeyConfig :: HTTPClientConfig where
  "apikeyConfig = cookieConfig\<lparr>Apikey := ''secret''\<rparr>"

definition exampleResponse ::
    "int \<Rightarrow> string \<Rightarrow> string \<Rightarrow> (string \<times> string) list \<Rightarrow> string \<Rightarrow> response" where
  "exampleResponse code text cid cookies body =
     \<lparr>StatusCode = code, Status = text,
      Header_Get = (\<lambda>k. if k = ''ClientID'' then cid else []),
      Cookies = cookies, Body = body\<rparr>"

definition exampleRequest :: request where
  "exampleRequest =
     \<lparr>Method = ''GET'', URL = ''http://h/rest/foo'', ReqBody = None, Header = [], BasicAuth = None\<rparr>"

section \<open>Properties\<close>

subsection \<open>One step of \<^verbatim>\<open>handleRequest\<close>\<close>

lemma handleRequest_Fail:
  "setHeaders c req = Return req' \<Longrightarrow> pending w = Fail e # rest \<Longrightarrow>
   handleRequest lib c w req = Return (c, \<lparr>pending = rest, sent = sent w @ [req']\<rparr>, None, Some e)"
  by (simp add: handleRequest.simps)

lemma handleRequest_Receive:
  "setHeaders c req = Return req' \<Longrightarrow> pending w = Receive r # rest \<Longrightarrow>
   detectChange c r = Return c1 \<Longrightarrow>
   handleRequest lib c w req =
     (if StatusCode r = 404
      then Return (c1, \<lparr>pending = rest, sent = sent w @ [req']\<rparr>, None,
                   Some (errors_New ''Invalid endpoint or API call''))
      else if StatusCode r = 401
      then Return (c1, \<lparr>pending = rest, sent = sent w @ [req']\<rparr>, None,
                   Some (errors_New ''Invalid username or password''))
      else if StatusCode r = 403 then
        (if apikey c1 = [] then
           (case getCidAndCsrf lib c1 \<lparr>pending = rest, sent = sent w @ [req']\<rparr> of
              Starved \<Rightarrow> Starved | Panic p \<Rightarrow> Panic p
            | Return (c2, w2, _) \<Rightarrow> Return (c2, w2, None, Some (errors_New ''Invalid CSRF token'')))
         else Return (c1, \<lparr>pending = rest, sent = sent w @ [req']\<rparr>, None,
                      Some (errors_New ''Invalid API key'')))
      else if StatusCode r \<noteq> 200 then
        (case otherStatus lib r of Starved \<Rightarrow> Starved | Panic p \<Rightarrow> Panic p
         | Return err \<Rightarrow> Return (c1, \<lparr>pending = rest, sent = sent w @ [req']\<rparr>, None, Some err))
      else Return (c1, \<lparr>pending = rest, sent = sent w @ [req']\<rparr>, Some r, None))"
  by (simp add: handleRequest.simps)

lemma handleRequest_needs_outcome:
  assumes "handleRequest lib c w req = Return (c', w', res, err)"
  shows "\<exists>req' x rest. setHeaders c req = Return req' \<and> pending w = x # rest"
  using assms
  by (auto simp: handleRequest.simps Let_def split: exec.splits list.splits)

lemma handleRequest_success:
  assumes "handleRequest lib c w req = Return (c', w', res, None)"
  shows "\<exists>req' r. setHeaders c req = Return req' \<and> pending w = Receive r # pending w' \<and>
           sent w' = sent w @ [req'] \<and> StatusCode r = 200 \<and> detectChange c r = Return c' \<and>
           res = Some r"
  using assms
  by (auto simp: handleRequest.simps Let_def
           split: exec.splits list.splits outcome.splits if_splits prod.splits)

subsection \<open>Attaching and extracting credentials\<close>

lemma setHeaders_Return_iff:
  "(\<exists>req'. setHeaders c req = Return req') \<longleftrightarrow> (csrf c = [] \<or> 5 \<le> length (id_str c))"
  by (auto simp: setHeaders_def Let_def)

lemma setHeaders_fresh:
  "apikey c = [] \<Longrightarrow> id_str c = [] \<Longrightarrow> csrf c = [] \<Longrightarrow> username c = [] \<Longrightarrow>
   password c = [] \<Longrightarrow> setHeaders c req = Return req"
  by (simp add: setHeaders_def)

lemma scanCookies_eq:
  "scanCookies i cookies tok =
     (if i = [] \<or> cookies = [] then Return tok
      else if length i < 5 then Panic SliceBoundsOutOfRange
      else Return (case map_of cookies (''CSRF-Token-'' @ take 5 i) of Some v \<Rightarrow> v | None \<Rightarrow> tok))"
  by (induction i cookies tok rule: scanCookies.induct) (auto split: option.splits)

lemma detectChange_frame:
  "detectChange c r = Return c1 \<Longrightarrow>
   apikey c1 = apikey c \<and> conf c1 = conf c \<and> initDone c1 = initDone c \<and> endpoint c1 = endpoint c"
  by (auto simp: detectChange_def Let_def split: exec.splits if_splits)

subsection \<open>What every run keeps and consumes\<close>

text \<open>
  A run that returns leaves the configuration, the API key, the endpoint and
  the \<open>initDone\<close> flag as they were, takes its outcomes from the front of the
  script, and logs one request for each outcome it took.
\<close>

lemma run_invariants:
  "(\<forall>c' w' res err. handleRequest lib c w req = Return (c', w', res, err) \<longrightarrow>
      (apikey c' = apikey c \<and> conf c' = conf c \<and> initDone c' = initDone c \<and> endpoint c' = endpoint c) \<and>
      (\<exists>more pre. sent w' = sent w @ more \<and> pending w = pre @ pending w' \<and> length pre = length more))"
  "(\<forall>c' w' err. getCidAndCsrf lib c w = Return (c', w', err) \<longrightarrow>
      (apikey c' = apikey c \<and> conf c' = conf c \<and> initDone c' = initDone c \<and> endpoint c' = endpoint c) \<and>
      (\<exists>more pre. sent w' = sent w @ more \<and> pending w = pre @ pending w' \<and> length pre = length more))"
proof (induction lib c w req and lib c w rule: handleRequest_getCidAndCsrf.induct)
  case (1 lib c w request)
  show ?case
  proof (intro allI impI)
    fix c' w' res err
    assume ret: "handleRequest lib c w request = Return (c', w', res, err)"
    then obtain req' x rest where sh: "setHeaders c request = Return req'" and pw: "pending w = x # rest"
      using handleRequest_needs_outcome by blast
    let ?w1 = "\<lparr>pending = rest, sent = sent w @ [req']\<rparr>"
    have one: "\<exists>more pre. sent ?w1 = sent w @ more \<and> pending w = pre @ pending ?w1 \<and> length pre = length more"
      using pw by (intro exI[of _ "[req']"] exI[of _ "[x]"]) simp
    show "(apikey c' = apikey c \<and> conf c' = conf c \<and> initDone c' = initDone c \<and> endpoint c' = endpoint c) \<and>
          (\<exists>more pre. sent w' = sent w @ more \<and> pending w = pre @ pending w' \<and> length pre = length more)"
    proof (cases x)
      case (Fail e)
      with ret sh pw have "c' = c" "w' = ?w1" by (simp_all add: handleRequest_Fail)
      with one show ?thesis by simp
    next
      case (Receive r)
      with ret sh pw obtain c1 where dc: "detectChange c r = Return c1"
        by (auto simp: handleRequest.simps split: exec.splits)
      note eq = handleRequest_Receive[OF sh pw[unfolded Receive] dc, of lib]
      note fr = detectChange_frame[OF dc]
      show ?thesis
      proof (cases "StatusCode r = 403 \<and> apikey c1 = []")
        case False
        with ret eq have "c' = c1" "w' = ?w1" by (auto split: if_splits exec.splits)
        with fr one show ?thesis by simp
      next
        case True
        with ret eq obtain e2 where g: "getCidAndCsrf lib c1 ?w1 = Return (c', w', e2)"
          by (auto split: if_splits exec.splits)
        from True have "StatusCode r \<noteq> 404" "StatusCode r \<noteq> 401" by simp_all
        from "1.IH"[OF sh pw Receive dc refl this] True g
        have keep: "apikey c' = apikey c1 \<and> conf c' = conf c1 \<and> initDone c' = initDone c1 \<and> endpoint c' = endpoint c1"
          and "\<exists>more pre. sent w' = sent ?w1 @ more \<and> pending ?w1 = pre @ pending w' \<and> length pre = length more"
          by blast+
        then obtain more pre where "sent w' = sent ?w1 @ more" "pending ?w1 = pre @ pending w'"
          "length pre = length more" by blast
        with pw have "\<exists>more pre. sent w' = sent w @ more \<and> pending w = pre @ pending w' \<and> length pre = length more"
          by (intro exI[of _ "req' # more"] exI[of _ "x # pre"]) simp
        with keep fr show ?thesis by simp
      qed
    qed
  qed
next
  case (2 lib c w)
  show ?case
  proof (intro allI impI)
    fix c' w' err
    assume ret: "getCidAndCsrf lib c w = Return (c', w', err)"
    show "(apikey c' = apikey c \<and> conf c' = conf c \<and> initDone c' = initDone c \<and> endpoint c' = endpoint c) \<and>
          (\<exists>more pre. sent w' = sent w @ more \<and> pending w = pre @ pending w' \<and> length pre = length more)"
    proof (cases "apikey c \<noteq> []")
      case True
      with ret have "c' = c" "w' = w" by (simp_all add: getCidAndCsrf.simps)
      then show ?thesis by simp
    next
      case False
      show ?thesis
      proof (cases "NewRequest lib ''GET'' (endpoint c) None")
        case (Inl e)
        with ret False have "c' = c" "w' = w" by (simp_all add: getCidAndCsrf.simps)
        then show ?thesis by simp
      next
        case (Inr b)
        with ret False obtain res e where "handleRequest lib c w b = Return (c', w', res, e)"
          by (auto simp: getCidAndCsrf.simps split: exec.splits option.splits if_splits)
        with "2.IH"[OF False Inr] show ?thesis by blast
      qed
    qed
  qed
qed

subsection \<open>Status classification\<close>






subsection \<open>Credential extraction\<close>

text \<open>
  C9. After a response, the stored client ID is overwritten exactly when the
  client-ID header of the response is non-empty and differs from it; the CSRF
  token is overwritten exactly when a cookie named "CSRF-Token-" plus the first 5
  bytes of the (new) client ID is found, the first such cookie winning, and is
  left alone when the client ID is empty. This is the state \<^verbatim>\<open>handleRequest\<close>
  returns for the statuses 200, 401 and 404. The client ID here is empty or has
  at least 5 bytes, or the response has no cookie.
\<close>

theorem C9_credential_extraction:
  assumes "cid = Header_Get r (HeaderClientKeyName (conf c))"
    and "i = (if cid \<noteq> [] \<and> id_str c \<noteq> cid then cid else id_str c)"
    and "i = [] \<or> 5 \<le> length i \<or> Cookies r = []"
    and "tok = (if i = [] then csrf c
                else case map_of (Cookies r) (''CSRF-Token-'' @ take 5 i) of
                       Some v \<Rightarrow> v | None \<Rightarrow> csrf c)"
  shows "detectChange c r = Return (c\<lparr>id_str := i, csrf := tok\<rparr>) \<and>
         (\<forall>lib w req req' rest. setHeaders c req = Return req' \<and> pending w = Receive r # rest \<and>
              (StatusCode r = 200 \<or> StatusCode r = 401 \<or> StatusCode r = 404) \<longrightarrow>
            (\<exists>res err. handleRequest lib c w req =
               Return (c\<lparr>id_str := i, csrf := tok\<rparr>, \<lparr>pending = rest, sent = sent w @ [req']\<rparr>, res, err)))"
proof -
  have dc: "detectChange c r = Return (c\<lparr>id_str := i, csrf := tok\<rparr>)"
    using assms by (auto simp: detectChange_def Let_def scanCookies_eq split: option.splits)
  show ?thesis
  proof (intro conjI allI impI)
    show "detectChange c r = Return (c\<lparr>id_str := i, csrf := tok\<rparr>)" by (rule dc)
  next
    fix lib :: golib and w :: world and req req' :: request and rest
    assume h: "setHeaders c req = Return req' \<and> pending w = Receive r # rest \<and>
              (StatusCode r = 200 \<or> StatusCode r = 401 \<or> StatusCode r = 404)"
    then have sh: "setHeaders c req = Return req'" and pw: "pending w = Receive r # rest" by simp_all
    from h show "\<exists>res err. handleRequest lib c w req =
               Return (c\<lparr>id_str := i, csrf := tok\<rparr>, \<lparr>pending = rest, sent = sent w @ [req']\<rparr>, res, err)"
      unfolding handleRequest_Receive [OF sh pw dc, of lib] by auto
  qed
qed

theorem C9_credential_extraction_witness:
  "5 \<le> length ''abc123'' \<and>
   detectChange (newClient ''http://h'' cookieConfig)
       (exampleResponse 200 ''200 OK'' ''abc123'' [(''CSRF-Token-abc12'', ''tok1'')] []) =
     Return ((newClient ''http://h'' cookieConfig)\<lparr>id_str := ''abc123'', csrf := ''tok1''\<rparr>)"
  using C9_credential_extraction [of "''abc123''"
      "exampleResponse 200 ''200 OK'' ''abc123'' [(''CSRF-Token-abc12'', ''tok1'')] []"
      "newClient ''http://h'' cookieConfig" "''abc123''" "''tok1''"]
  by (simp add: newClient_def cookieConfig_def exampleResponse_def)

subsection \<open>Session bootstrap\<close>

text \<open>
  C7, as stated, fails: a bootstrap whose GET is answered by a 404 that carries
  a client ID and a CSRF cookie stores both and still fails, with the error of
  the request, not with a missing-ID or missing-token error.
\<close>

theorem C7_counterexample:
  "map_exec (\<lambda>(c', w', e). (id_str c', csrf c', e))
     (getCidAndCsrf exampleLib (newClient ''http://h'' cookieConfig)
        \<lparr>pending = [Receive (exampleResponse 404 ''404 Not Found'' ''abc123''
                               [(''CSRF-Token-abc12'', ''tok1'')] [])], sent = []\<rparr>)
   = Return (''abc123'', ''tok1'', Some (errors_New ''Invalid endpoint or API call''))"
  by (simp add: getCidAndCsrf.simps handleRequest.simps NewRequest_def exampleLib_def
        newClient_def cookieConfig_def exampleResponse_def setHeaders_def detectChange_def)

text \<open>
  C7, amended. With an API key, \<^verbatim>\<open>getCidAndCsrf\<close> returns success and leaves
  the client and the network untouched. Without one: an error of
  \<^verbatim>\<open>http.NewRequest\<close> is returned as it is; when the GET is answered by a 200,
  the result is "Failed to get device ID" if no ID is stored, "Failed to get CSRF
  token" if CSRF is not disabled and no token is stored, and success otherwise;
  the bootstrap succeeds only if its GET was answered by a 200, an ID is
  stored, and CSRF is disabled or a token is stored; and when the GET fails in
  transport or is answered by a status other than 200, the bootstrap returns the
  error of that request: the transport error, "Invalid username or password" for
  a 401, "Invalid endpoint or API call" for a 404, the error of the body or of the
  unknown status for the other statuses, and in general whatever error
  \<^verbatim>\<open>handleRequest\<close> returned.
\<close>

theorem C7_bootstrap_postconditions:
  "(apikey c \<noteq> [] \<longrightarrow> getCidAndCsrf lib c w = Return (c, w, None)) \<and>
   (apikey c = [] \<longrightarrow>
      (\<forall>err. NewRequest lib ''GET'' (endpoint c) None = Inl err \<longrightarrow>
         getCidAndCsrf lib c w = Return (c, w, Some err)) \<and>
      (\<forall>req req' r rest c'.
         NewRequest lib ''GET'' (endpoint c) None = Inr req \<and> setHeaders c req = Return req' \<and>
         pending w = Receive r # rest \<and> StatusCode r = 200 \<and> detectChange c r = Return c' \<longrightarrow>
         getCidAndCsrf lib c w =
           Return (c', \<lparr>pending = rest, sent = sent w @ [req']\<rparr>,
                   if id_str c' = [] then Some (errors_New ''Failed to get device ID'')
                   else if \<not> CsrfDisable (conf c') \<and> csrf c' = []
                   then Some (errors_New ''Failed to get CSRF token'')
                   else None)) \<and>
      (\<forall>c' w'. getCidAndCsrf lib c w = Return (c', w', None) \<longrightarrow>
         id_str c' \<noteq> [] \<and> (CsrfDisable (conf c') \<or> csrf c' \<noteq> []) \<and>
         (\<exists>r. pending w = Receive r # pending w' \<and> StatusCode r = 200)) \<and>
      (\<forall>req req' e rest.
         NewRequest lib ''GET'' (endpoint c) None = Inr req \<and> setHeaders c req = Return req' \<and>
         pending w = Fail e # rest \<longrightarrow>
         getCidAndCsrf lib c w = Return (c, \<lparr>pending = rest, sent = sent w @ [req']\<rparr>, Some e)) \<and>
      (\<forall>req req' r rest c'.
         NewRequest lib ''GET'' (endpoint c) None = Inr req \<and> setHeaders c req = Return req' \<and>
         pending w = Receive r # rest \<and> detectChange c r = Return c' \<longrightarrow>
         (StatusCode r = 401 \<longrightarrow> getCidAndCsrf lib c w =
            Return (c', \<lparr>pending = rest, sent = sent w @ [req']\<rparr>,
                    Some (errors_New ''Invalid username or password''))) \<and>
         (StatusCode r = 404 \<longrightarrow> getCidAndCsrf lib c w =
            Return (c', \<lparr>pending = rest, sent = sent w @ [req']\<rparr>,
                    Some (errors_New ''Invalid endpoint or API call''))) \<and>
         (StatusCode r \<notin> {200, 401, 403, 404} \<longrightarrow>
            (\<forall>s. json_Unmarshal lib (Body r) ''error'' = Some (JString s) \<longrightarrow>
               getCidAndCsrf lib c w =
                 Return (c', \<lparr>pending = rest, sent = sent w @ [req']\<rparr>, Some (fmt_Errorf s))) \<and>
            (json_Unmarshal lib (Body r) ''error'' = None \<longrightarrow>
               getCidAndCsrf lib c w =
                 Return (c', \<lparr>pending = rest, sent = sent w @ [req']\<rparr>,
                         Some (errors_New (''Unknown HTTP status returned: '' @ Status r)))))) \<and>
      (\<forall>req c' w' res err.
         NewRequest lib ''GET'' (endpoint c) None = Inr req \<and>
         handleRequest lib c w req = Return (c', w', res, Some err) \<longrightarrow>
         getCidAndCsrf lib c w = Return (c', w', Some err)))"
proof -
  have p1: "apikey c \<noteq> [] \<longrightarrow> getCidAndCsrf lib c w = Return (c, w, None)"
    by (simp add: getCidAndCsrf.simps)
  have p2: "\<forall>err. NewRequest lib ''GET'' (endpoint c) None = Inl err \<longrightarrow>
         getCidAndCsrf lib c w = Return (c, w, Some err)" if "apikey c = []"
    using that by (simp add: getCidAndCsrf.simps)
  have p3: "getCidAndCsrf lib c w =
           Return (c', \<lparr>pending = rest, sent = sent w @ [req']\<rparr>,
                   if id_str c' = [] then Some (errors_New ''Failed to get device ID'')
                   else if \<not> CsrfDisable (conf c') \<and> csrf c' = []
                   then Some (errors_New ''Failed to get CSRF token'')
                   else None)"
    if k: "apikey c = []"
      and h: "NewRequest lib ''GET'' (endpoint c) None = Inr req \<and> setHeaders c req = Return req' \<and>
         pending w = Receive r # rest \<and> StatusCode r = 200 \<and> detectChange c r = Return c'"
    for req req' r rest c'
  proof -
    from h have "handleRequest lib c w req =
        Return (c', \<lparr>pending = rest, sent = sent w @ [req']\<rparr>, Some r, None)"
      by (simp add: handleRequest_Receive)
    with k h show ?thesis by (simp add: getCidAndCsrf.simps)
  qed
  have p4: "id_str c' \<noteq> [] \<and> (CsrfDisable (conf c') \<or> csrf c' \<noteq> []) \<and>
         (\<exists>r. pending w = Receive r # pending w' \<and> StatusCode r = 200)"
    if k: "apikey c = []" and ret: "getCidAndCsrf lib c w = Return (c', w', None)" for c' w'
  proof -
    from k ret obtain req res where hr: "handleRequest lib c w req = Return (c', w', res, None)"
      and ok: "id_str c' \<noteq> []" "CsrfDisable (conf c') \<or> csrf c' \<noteq> []"
      by (auto simp: getCidAndCsrf.simps split: sum.splits exec.splits option.splits if_splits)
    from handleRequest_success [OF hr] ok show ?thesis by blast
  qed
  have p7: "getCidAndCsrf lib c w = Return (c', w', Some err)"
    if "apikey c = []" "NewRequest lib ''GET'' (endpoint c) None = Inr req \<and>
         handleRequest lib c w req = Return (c', w', res, Some err)" for req c' w' res err
    using that by (simp add: getCidAndCsrf.simps)
  have p5: "getCidAndCsrf lib c w = Return (c, \<lparr>pending = rest, sent = sent w @ [req']\<rparr>, Some e)"
    if k: "apikey c = []"
      and h: "NewRequest lib ''GET'' (endpoint c) None = Inr req \<and> setHeaders c req = Return req' \<and>
         pending w = Fail e # rest" for req req' e rest
  proof -
    from h have "handleRequest lib c w req =
        Return (c, \<lparr>pending = rest, sent = sent w @ [req']\<rparr>, None, Some e)"
      by (simp add: handleRequest_Fail)
    with h show ?thesis by (intro p7 [OF k]) simp
  qed
  have p6: "(StatusCode r = 401 \<longrightarrow> getCidAndCsrf lib c w =
            Return (c', \<lparr>pending = rest, sent = sent w @ [req']\<rparr>,
                    Some (errors_New ''Invalid username or password''))) \<and>
         (StatusCode r = 404 \<longrightarrow> getCidAndCsrf lib c w =
            Return (c', \<lparr>pending = rest, sent = sent w @ [req']\<rparr>,
                    Some (errors_New ''Invalid endpoint or API call''))) \<and>
         (StatusCode r \<notin> {200, 401, 403, 404} \<longrightarrow>
            (\<forall>s. json_Unmarshal lib (Body r) ''error'' = Some (JString s) \<longrightarrow>
               getCidAndCsrf lib c w =
                 Return (c', \<lparr>pending = rest, sent = sent w @ [req']\<rparr>, Some (fmt_Errorf s))) \<and>
            (json_Unmarshal lib (Body r) ''error'' = None \<longrightarrow>
               getCidAndCsrf lib c w =
                 Return (c', \<lparr>pending = rest, sent = sent w @ [req']\<rparr>,
                         Some (errors_New (''Unknown HTTP status returned: '' @ Status r)))))"
    if k: "apikey c = []"
      and h: "NewRequest lib ''GET'' (endpoint c) None = Inr req \<and> setHeaders c req = Return req' \<and>
         pending w = Receive r # rest \<and> detectChange c r = Return c'" for req req' r rest c'
  proof -
    from h have nr: "NewRequest lib ''GET'' (endpoint c) None = Inr req"
      and sh: "setHeaders c req = Return req'" and pw: "pending w = Receive r # rest"
      and dc: "detectChange c r = Return c'" by simp_all
    note eq = handleRequest_Receive [OF sh pw dc, of lib]
    let ?w1 = "\<lparr>pending = rest, sent = sent w @ [req']\<rparr>"
    have step: "getCidAndCsrf lib c w = Return (c', ?w1, Some err)"
      if "handleRequest lib c w req = Return (c', ?w1, None, Some err)" for err
      using p7 [OF k, of req c' ?w1 None err] nr that by simp
    have a: "StatusCode r = 401 \<longrightarrow> getCidAndCsrf lib c w =
            Return (c', ?w1, Some (errors_New ''Invalid username or password''))"
      by (intro impI step) (simp add: eq)
    have b: "StatusCode r = 404 \<longrightarrow> getCidAndCsrf lib c w =
            Return (c', ?w1, Some (errors_New ''Invalid endpoint or API call''))"
      by (intro impI step) (simp add: eq)
    have c1: "getCidAndCsrf lib c w = Return (c', ?w1, Some (fmt_Errorf s))"
      if "StatusCode r \<notin> {200, 401, 403, 404}" "json_Unmarshal lib (Body r) ''error'' = Some (JString s)"
      for s
      using that by (intro step) (simp add: eq otherStatus_def ResponseToBArray_def)
    have c2: "getCidAndCsrf lib c w =
                 Return (c', ?w1, Some (errors_New (''Unknown HTTP status returned: '' @ Status r)))"
      if "StatusCode r \<notin> {200, 401, 403, 404}" "json_Unmarshal lib (Body r) ''error'' = None"
      using that by (intro step) (simp add: eq otherStatus_def ResponseToBArray_def TrimSpace_def)
    from a b c1 c2 show ?thesis by blast
  qed
  show ?thesis
    apply (intro conjI impI)
    subgoal using p1 by simp
    subgoal using p2 by blast
    subgoal using p3 by blast
    subgoal using p4 by blast
    subgoal using p5 by blast
    subgoal using p6 by blast
    subgoal using p7 by blast
    done
qed

theorem C7_bootstrap_postconditions_witness:
  "apikey (newClient ''http://h'' apikeyConfig) \<noteq> [] \<and>
   getCidAndCsrf exampleLib (newClient ''http://h'' apikeyConfig) \<lparr>pending = [], sent = []\<rparr> =
     Return (newClient ''http://h'' apikeyConfig, \<lparr>pending = [], sent = []\<rparr>, None) \<and>
   apikey (newClient ''http://h'' cookieConfig) = [] \<and>
   getCidAndCsrf exampleLib (newClient ''http://h'' cookieConfig)
       \<lparr>pending = [Receive (exampleResponse 200 ''200 OK'' ''abc123'' [] [])], sent = []\<rparr> =
     Return ((newClient ''http://h'' cookieConfig)\<lparr>id_str := ''abc123''\<rparr>,
             \<lparr>pending = [], sent = [exampleRequest\<lparr>URL := ''http://h''\<rparr>]\<rparr>,
             Some (errors_New ''Failed to get CSRF token'')) \<and>
   getCidAndCsrf exampleLib (newClient ''http://h'' cookieConfig)
       \<lparr>pending = [Receive (exampleResponse 401 ''401 Unauthorized'' ''abc123'' [] [])], sent = []\<rparr> =
     Return ((newClient ''http://h'' cookieConfig)\<lparr>id_str := ''abc123''\<rparr>,
             \<lparr>pending = [], sent = [exampleRequest\<lparr>URL := ''http://h''\<rparr>]\<rparr>,
             Some (errors_New ''Invalid username or password''))"
proof -
  let ?c = "newClient ''http://h'' cookieConfig"
  let ?r = "exampleResponse 200 ''200 OK'' ''abc123'' [] []"
  let ?req = "exampleRequest\<lparr>URL := ''http://h''\<rparr>"
  have k: "apikey ?c = []" by (simp add: newClient_def cookieConfig_def)
  have h: "NewRequest exampleLib ''GET'' (endpoint ?c) None = Inr ?req \<and>
           setHeaders ?c ?req = Return ?req \<and>
           pending \<lparr>pending = [Receive ?r], sent = []\<rparr> = Receive ?r # [] \<and> StatusCode ?r = 200 \<and>
           detectChange ?c ?r = Return (?c\<lparr>id_str := ''abc123''\<rparr>)"
    by (simp add: NewRequest_def exampleLib_def newClient_def cookieConfig_def exampleRequest_def
          setHeaders_def detectChange_def exampleResponse_def)
  note cookie = C7_bootstrap_postconditions [of ?c exampleLib "\<lparr>pending = [Receive ?r], sent = []\<rparr>",
      THEN conjunct2, THEN mp, OF k, THEN conjunct2, THEN conjunct1, rule_format, OF h]
  let ?u = "exampleResponse 401 ''401 Unauthorized'' ''abc123'' [] []"
  have h': "NewRequest exampleLib ''GET'' (endpoint ?c) None = Inr ?req \<and>
           setHeaders ?c ?req = Return ?req \<and>
           pending \<lparr>pending = [Receive ?u], sent = []\<rparr> = Receive ?u # [] \<and>
           detectChange ?c ?u = Return (?c\<lparr>id_str := ''abc123''\<rparr>)"
    by (simp add: NewRequest_def exampleLib_def newClient_def cookieConfig_def exampleRequest_def
          setHeaders_def detectChange_def exampleResponse_def)
  have st: "StatusCode ?u = 401" by (simp add: exampleResponse_def)
  note refused = C7_bootstrap_postconditions [of ?c exampleLib "\<lparr>pending = [Receive ?u], sent = []\<rparr>",
      THEN conjunct2, THEN mp, OF k, THEN conjunct2, THEN conjunct2, THEN conjunct2, THEN conjunct2,
      THEN conjunct1, rule_format, OF h', THEN conjunct1, THEN mp, OF st]
  show ?thesis
    using C7_bootstrap_postconditions [of "newClient ''http://h'' apikeyConfig" exampleLib
      "\<lparr>pending = [], sent = []\<rparr>"] cookie refused
    by (simp add: newClient_def apikeyConfig_def cookieConfig_def)
qed

subsection \<open>The output buffer of the low-level verbs\<close>

lemma lazy_init_pending:
  assumes "(if \<not> initDone c
            then (case getCidAndCsrf lib c w of
                    Starved \<Rightarrow> Starved
                  | Panic p \<Rightarrow> Panic p
                  | Return (c', w', None) \<Rightarrow> Return (c'\<lparr>initDone := True\<rparr>, w')
                  | Return (c', w', Some err) \<Rightarrow> Return (c', w'))
            else Return (c, w)) = Return (c1, w1)"
  shows "\<exists>pre. pending w = pre @ pending w1"
proof (cases "initDone c")
  case True
  with assms show ?thesis by simp
next
  case False
  with assms obtain c' e where "getCidAndCsrf lib c w = Return (c', w1, e)"
    by (auto split: exec.splits option.splits)
  with run_invariants(2) [of lib c w] show ?thesis by blast
qed

lemma u_HTTPRequest_buffer:
  assumes ret: "u_HTTPRequest lib c w method url body (Some buf) = Return (c', w', data', res, err)"
  shows "(err = None \<longrightarrow> (\<exists>r pre. pending w = pre @ Receive r # pending w' \<and> StatusCode r = 200 \<and>
                                  data' = Some (Body r) \<and> res = Some (r\<lparr>Body := []\<rparr>))) \<and>
         (err \<noteq> None \<longrightarrow> data' = Some buf)"
proof -
  let ?init = "if \<not> initDone c
            then (case getCidAndCsrf lib c w of
                    Starved \<Rightarrow> Starved
                  | Panic p \<Rightarrow> Panic p
                  | Return (c', w', None) \<Rightarrow> Return (c'\<lparr>initDone := True\<rparr>, w')
                  | Return (c', w', Some err) \<Rightarrow> Return (c', w'))
            else Return (c, w)"
  from ret obtain c1 w1 where init: "?init = Return (c1, w1)"
    unfolding u_HTTPRequest_def by (cases ?init) auto
  from lazy_init_pending [OF init] obtain pre where pre: "pending w = pre @ pending w1" ..
  show ?thesis
  proof (cases "NewRequest lib method (formatURL c1 url) body")
    case (Inl e)
    with ret init show ?thesis unfolding u_HTTPRequest_def by auto
  next
    case (Inr request)
    with ret init obtain c2 w2 res2 err2
      where hr: "handleRequest lib c1 w1 request = Return (c2, w2, res2, err2)"
      unfolding u_HTTPRequest_def by (cases "handleRequest lib c1 w1 request") auto
    show ?thesis
    proof (cases err2)
      case (Some e)
      with ret init Inr hr show ?thesis unfolding u_HTTPRequest_def by (auto split: option.splits)
    next
      case None
      with hr handleRequest_success [of lib c1 w1 request c2 w2 res2]
      obtain r where r: "pending w1 = Receive r # pending w2" "StatusCode r = 200" "res2 = Some r"
        by blast
      with ret init Inr hr None
      have "err = None" "data' = Some (Body r)" "res = Some (r\<lparr>Body := []\<rparr>)" "w' = w2"
        unfolding u_HTTPRequest_def by (auto simp: ResponseToBArray_def)
      with pre r show ?thesis by auto
    qed
  qed
qed

text \<open>
  C10. A low-level verb that is given a buffer (\<^verbatim>\<open>_HTTPRequest\<close> with a non-nil
  \<^verbatim>\<open>data\<close>, so \<^verbatim>\<open>HTTPGetWithRes\<close> and \<^verbatim>\<open>HTTPGet\<close>) writes it only when it returns
  without error: then the response to the request, the last outcome taken from the
  network, has status 200 and the buffer holds its whole body. Whenever an error
  is returned (request construction, transport, or any status other than 200),
  the buffer holds what it held before.
\<close>

theorem C10_buffer_frame:
  "(\<forall>c' w' data' res err.
      u_HTTPRequest lib c w method url body (Some buf) = Return (c', w', data', res, err) \<longrightarrow>
        (err = None \<longrightarrow> (\<exists>r pre. pending w = pre @ Receive r # pending w' \<and> StatusCode r = 200 \<and>
                                  data' = Some (Body r) \<and> res = Some (r\<lparr>Body := []\<rparr>))) \<and>
        (err \<noteq> None \<longrightarrow> data' = Some buf)) \<and>
   (\<forall>c' w' data' err.
      HTTPGet lib c w url (Some buf) = Return (c', w', data', err) \<longrightarrow>
        (err = None \<longrightarrow> (\<exists>r pre. pending w = pre @ Receive r # pending w' \<and> StatusCode r = 200 \<and>
                                  data' = Some (Body r))) \<and>
        (err \<noteq> None \<longrightarrow> data' = Some buf))"
proof -
  have get: "(err = None \<longrightarrow> (\<exists>r pre. pending w = pre @ Receive r # pending w' \<and> StatusCode r = 200 \<and>
                                  data' = Some (Body r))) \<and>
        (err \<noteq> None \<longrightarrow> data' = Some buf)"
    if "HTTPGet lib c w url (Some buf) = Return (c', w', data', err)" for c' w' data' err
  proof -
    from that obtain res
      where "u_HTTPRequest lib c w ''GET'' url None (Some buf) = Return (c', w', data', res, err)"
      by (auto simp: HTTPGet_def dropRes_def split: exec.splits)
    from u_HTTPRequest_buffer [OF this] show ?thesis by blast
  qed
  from u_HTTPRequest_buffer [where lib = lib and c = c and w = w and buf = buf] get
  show ?thesis by blast
qed

theorem C10_buffer_frame_witness:
  "u_HTTPRequest exampleLib ((newClient ''http://h'' apikeyConfig)\<lparr>initDone := True\<rparr>)
       \<lparr>pending = [Receive (exampleResponse 200 ''200 OK'' [] [] ''hello'')], sent = []\<rparr>
       ''GET'' ''foo'' None (Some ''old'') =
     Return ((newClient ''http://h'' apikeyConfig)\<lparr>initDone := True\<rparr>,
             \<lparr>pending = [], sent = [Header_Set exampleRequest ''X-API-Key'' ''secret'']\<rparr>,
             Some ''hello'', Some (exampleResponse 200 ''200 OK'' [] [] []), None) \<and>
   (\<exists>r pre. [Receive (exampleResponse 200 ''200 OK'' [] [] ''hello'')] = pre @ [Receive r] \<and>
             StatusCode r = 200 \<and> Some ''hello'' = Some (Body r)) \<and>
   u_HTTPRequest exampleLib ((newClient ''http://h'' apikeyConfig)\<lparr>initDone := True\<rparr>)
       \<lparr>pending = [Receive (exampleResponse 404 ''404 Not Found'' [] [] ''gone'')], sent = []\<rparr>
       ''GET'' ''foo'' None (Some ''old'') =
     Return ((newClient ''http://h'' apikeyConfig)\<lparr>initDone := True\<rparr>,
             \<lparr>pending = [], sent = [Header_Set exampleRequest ''X-API-Key'' ''secret'']\<rparr>,
             Some ''old'', None, Some (errors_New ''Invalid endpoint or API call''))"
proof -
  let ?c = "(newClient ''http://h'' apikeyConfig)\<lparr>initDone := True\<rparr>"
  have ok: "u_HTTPRequest exampleLib ?c
       \<lparr>pending = [Receive (exampleResponse 200 ''200 OK'' [] [] ''hello'')], sent = []\<rparr>
       ''GET'' ''foo'' None (Some ''old'') =
     Return (?c, \<lparr>pending = [], sent = [Header_Set exampleRequest ''X-API-Key'' ''secret'']\<rparr>,
             Some ''hello'', Some (exampleResponse 200 ''200 OK'' [] [] []), None)"
    by (simp add: u_HTTPRequest_def handleRequest.simps NewRequest_def exampleLib_def newClient_def
          apikeyConfig_def cookieConfig_def exampleResponse_def exampleRequest_def setHeaders_def
          detectChange_def formatURL_def HasSuffix_def TrimLeft_def Header_Set_def
          ResponseToBArray_def)
  have bad: "u_HTTPRequest exampleLib ?c
       \<lparr>pending = [Receive (exampleResponse 404 ''404 Not Found'' [] [] ''gone'')], sent = []\<rparr>
       ''GET'' ''foo'' None (Some ''old'') =
     Return (?c, \<lparr>pending = [], sent = [Header_Set exampleRequest ''X-API-Key'' ''secret'']\<rparr>,
             Some ''old'', None, Some (errors_New ''Invalid endpoint or API call''))"
    by (simp add: u_HTTPRequest_def handleRequest.simps NewRequest_def exampleLib_def newClient_def
          apikeyConfig_def cookieConfig_def exampleResponse_def exampleRequest_def setHeaders_def
          detectChange_def formatURL_def HasSuffix_def TrimLeft_def Header_Set_def)
  from C10_buffer_frame [THEN conjunct1, rule_format, OF ok] ok bad
  show ?thesis by simp
qed

subsection \<open>Session state in API-key mode\<close>

lemma handleRequest_apikey:
  assumes key: "apikey c \<noteq> []" and ret: "handleRequest lib c w req = Return (c', w', res, err)"
  shows "(\<exists>e rest. pending w = Fail e # rest \<and> c' = c) \<or>
         (\<exists>r rest. pending w = Receive r # rest \<and> detectChange c r = Return c')"
proof -
  from ret obtain req' x rest where sh: "setHeaders c req = Return req'" and pw: "pending w = x # rest"
    using handleRequest_needs_outcome by blast
  show ?thesis
  proof (cases x)
    case (Fail e)
    with ret sh pw show ?thesis by (simp add: handleRequest_Fail)
  next
    case (Receive r)
    with ret sh pw obtain c1 where dc: "detectChange c r = Return c1"
      by (auto simp: handleRequest.simps split: exec.splits)
    from detectChange_frame [OF dc] key have "apikey c1 \<noteq> []" by simp
    with ret handleRequest_Receive [OF sh pw[unfolded Receive] dc, of lib]
    have "c' = c1" by (auto split: if_splits exec.splits)
    with dc pw Receive show ?thesis by simp
  qed
qed

lemma detectChange_no_header:
  "Header_Get r (HeaderClientKeyName (conf c)) = [] \<Longrightarrow> id_str c = [] \<Longrightarrow>
   detectChange c r = Return c' \<Longrightarrow> id_str c' = [] \<and> csrf c' = csrf c"
  by (auto simp: detectChange_def scanCookies_eq)

lemma detectChange_header:
  "Header_Get r (HeaderClientKeyName (conf c)) \<noteq> [] \<Longrightarrow> detectChange c r = Return c' \<Longrightarrow>
   id_str c' = Header_Get r (HeaderClientKeyName (conf c))"
  by (auto simp: detectChange_def Let_def split: exec.splits if_splits)

lemma detectChange_cookie:
  "Header_Get r (HeaderClientKeyName (conf c)) \<noteq> [] \<Longrightarrow> detectChange c r = Return c' \<Longrightarrow>
   map_of (Cookies r) (''CSRF-Token-'' @ take 5 (Header_Get r (HeaderClientKeyName (conf c)))) = Some v \<Longrightarrow>
   csrf c' = v"
  by (auto simp: detectChange_def Let_def scanCookies_eq split: if_splits)

text \<open>
  What holds with an API key: construction and bootstrap make no network call and
  leave \<^verbatim>\<open>id\<close> and \<^verbatim>\<open>csrf\<close> empty, and they stay empty after every request
  whose response carries no client-ID header. A response that carries one sets
  \<^verbatim>\<open>id\<close> to it, and \<^verbatim>\<open>csrf\<close> to the cookie named after it, API key or not.
\<close>

lemma apikey_session_state:
  "(Apikey cfg \<noteq> [] \<longrightarrow>
      HTTPNewClient lib baseURL cfg w = Return ((newClient baseURL cfg)\<lparr>initDone := True\<rparr>, w, None) \<and>
      id_str (newClient baseURL cfg) = [] \<and> csrf (newClient baseURL cfg) = []) \<and>
   (apikey c \<noteq> [] \<longrightarrow> getCidAndCsrf lib c w = Return (c, w, None)) \<and>
   (apikey c \<noteq> [] \<and> id_str c = [] \<and> csrf c = [] \<longrightarrow>
      (\<forall>m u b d c' w' x. u_HTTPRequest lib c w m u b d = Return (c', w', x) \<and>
           (\<forall>r rest. pending w = Receive r # rest \<longrightarrow> Header_Get r (HeaderClientKeyName (conf c)) = []) \<longrightarrow>
         id_str c' = [] \<and> csrf c' = [] \<and> apikey c' = apikey c) \<and>
      (\<forall>m u b d c' w' x r rest. u_HTTPRequest lib c w m u b d = Return (c', w', x) \<and>
           pending w = Receive r # rest \<and> Header_Get r (HeaderClientKeyName (conf c)) \<noteq> [] \<and>
           NewRequest_err lib m (formatURL c u) = None \<longrightarrow>
         id_str c' = Header_Get r (HeaderClientKeyName (conf c)) \<and>
         (\<forall>v. map_of (Cookies r)
                 (''CSRF-Token-'' @ take 5 (Header_Get r (HeaderClientKeyName (conf c)))) = Some v \<longrightarrow>
              csrf c' = v)))"
proof -
  have p1: "HTTPNewClient lib baseURL cfg w = Return ((newClient baseURL cfg)\<lparr>initDone := True\<rparr>, w, None) \<and>
      id_str (newClient baseURL cfg) = [] \<and> csrf (newClient baseURL cfg) = []" if "Apikey cfg \<noteq> []"
    using that by (simp add: HTTPNewClient_def getCidAndCsrf.simps newClient_def)
  have p2: "getCidAndCsrf lib c w = Return (c, w, None)" if "apikey c \<noteq> []"
    using that by (simp add: getCidAndCsrf.simps)
  have steps: "\<exists>c1. apikey c1 = apikey c \<and> id_str c1 = id_str c \<and> csrf c1 = csrf c \<and> conf c1 = conf c \<and>
                formatURL c1 u = formatURL c u \<and>
                (case NewRequest lib m (formatURL c1 u) b of
                   Inl e \<Rightarrow> c' = c1
                 | Inr req \<Rightarrow> (\<exists>w2 res err. handleRequest lib c1 w req = Return (c', w2, res, err)))"
    if key: "apikey c \<noteq> []" and ret: "u_HTTPRequest lib c w m u b d = Return (c', w', x)"
    for m u b d c' w' x
  proof -
    let ?c1 = "if initDone c then c else c\<lparr>initDone := True\<rparr>"
    have init: "(if \<not> initDone c
            then (case getCidAndCsrf lib c w of
                    Starved \<Rightarrow> Starved
                  | Panic p \<Rightarrow> Panic p
                  | Return (c', w', None) \<Rightarrow> Return (c'\<lparr>initDone := True\<rparr>, w')
                  | Return (c', w', Some err) \<Rightarrow> Return (c', w'))
            else Return (c, w)) = Return (?c1, w)"
      using p2 [OF key] by simp
    have "case NewRequest lib m (formatURL ?c1 u) b of
                   Inl e \<Rightarrow> c' = ?c1
                 | Inr req \<Rightarrow> (\<exists>w2 res err. handleRequest lib ?c1 w req = Return (c', w2, res, err))"
      using ret unfolding u_HTTPRequest_def init
      by (auto split: sum.splits exec.splits option.splits if_splits prod.splits)
    then show ?thesis
      by (intro exI [of _ ?c1]) (simp add: formatURL_def)
  qed
  have p3: "id_str c' = [] \<and> csrf c' = [] \<and> apikey c' = apikey c"
    if key: "apikey c \<noteq> []" and emp: "id_str c = []" "csrf c = []"
      and ret: "u_HTTPRequest lib c w m u b d = Return (c', w', x)"
      and nohdr: "\<forall>r rest. pending w = Receive r # rest \<longrightarrow> Header_Get r (HeaderClientKeyName (conf c)) = []"
    for m u b d c' w' x
  proof -
    from steps [OF key ret] obtain c1 where c1: "apikey c1 = apikey c" "id_str c1 = id_str c"
      "csrf c1 = csrf c" "conf c1 = conf c"
      and run: "case NewRequest lib m (formatURL c1 u) b of
                   Inl e \<Rightarrow> c' = c1
                 | Inr req \<Rightarrow> (\<exists>w2 res err. handleRequest lib c1 w req = Return (c', w2, res, err))"
      by blast
    show ?thesis
    proof (cases "NewRequest lib m (formatURL c1 u) b")
      case (Inl e)
      with run c1 emp show ?thesis by simp
    next
      case (Inr req)
      with run obtain w2 res err where hr: "handleRequest lib c1 w req = Return (c', w2, res, err)"
        by auto
      from run_invariants(1) [of lib c1 w req] hr c1 have k': "apikey c' = apikey c" by simp
      from handleRequest_apikey [OF _ hr] key c1
      consider "c' = c1" | r rest where "pending w = Receive r # rest" "detectChange c1 r = Return c'"
        by auto
      then show ?thesis
      proof cases
        case 1
        with c1 emp k' show ?thesis by simp
      next
        case 2
        with nohdr c1 have "Header_Get r (HeaderClientKeyName (conf c1)) = []" by simp
        from detectChange_no_header [OF this _ 2(2)] c1 emp k' show ?thesis by simp
      qed
    qed
  qed
  have p4: "id_str c' = Header_Get r (HeaderClientKeyName (conf c)) \<and>
         (\<forall>v. map_of (Cookies r)
                 (''CSRF-Token-'' @ take 5 (Header_Get r (HeaderClientKeyName (conf c)))) = Some v \<longrightarrow>
              csrf c' = v)"
    if key: "apikey c \<noteq> []"
      and ret: "u_HTTPRequest lib c w m u b d = Return (c', w', x)"
      and pw: "pending w = Receive r # rest"
      and hdr: "Header_Get r (HeaderClientKeyName (conf c)) \<noteq> []"
      and nr: "NewRequest_err lib m (formatURL c u) = None"
    for m u b d c' w' x r rest
  proof -
    from steps [OF key ret] obtain c1 where c1: "apikey c1 = apikey c" "conf c1 = conf c"
      "formatURL c1 u = formatURL c u"
      and run: "case NewRequest lib m (formatURL c1 u) b of
                   Inl e \<Rightarrow> c' = c1
                 | Inr req \<Rightarrow> (\<exists>w2 res err. handleRequest lib c1 w req = Return (c', w2, res, err))"
      by blast
    from nr c1 obtain req where "NewRequest lib m (formatURL c1 u) b = Inr req"
      by (simp add: NewRequest_def)
    with run obtain w2 res err where hr: "handleRequest lib c1 w req = Return (c', w2, res, err)"
      by auto
    from handleRequest_apikey [OF _ hr] key c1 pw have dc: "detectChange c1 r = Return c'" by auto
    from hdr c1 have hdr1: "Header_Get r (HeaderClientKeyName (conf c1)) \<noteq> []" by simp
    from detectChange_header [OF hdr1 dc] detectChange_cookie [OF hdr1 dc] c1
    show ?thesis by simp
  qed
  show ?thesis
    apply (intro conjI impI)
    subgoal using p1 by simp
    subgoal using p1 by simp
    subgoal using p1 by simp
    subgoal using p2 by simp
    subgoal using p3 by blast
    subgoal using p4 by blast
    done
qed

text \<open>
  C3 says that with an API key \<^verbatim>\<open>id\<close> and \<^verbatim>\<open>csrf\<close> stay empty after every
  operation. On the code, a client built with an API key makes no network call
  while it is built, but its first request, answered by a response that carries the
  client-ID header and the matching cookie, leaves \<^verbatim>\<open>id\<close> and \<^verbatim>\<open>csrf\<close> filled:
  only \<^verbatim>\<open>getCidAndCsrf\<close> looks at the API key, the extraction in
  \<^verbatim>\<open>handleRequest\<close> does not.
\<close>

theorem C3_apikey_session_populated:
  "HTTPNewClient exampleLib ''http://h'' apikeyConfig
      \<lparr>pending = [Receive (exampleResponse 200 ''200 OK'' ''abc123''
                             [(''CSRF-Token-abc12'', ''tok1'')] [])], sent = []\<rparr> =
     Return ((newClient ''http://h'' apikeyConfig)\<lparr>initDone := True\<rparr>,
             \<lparr>pending = [Receive (exampleResponse 200 ''200 OK'' ''abc123''
                             [(''CSRF-Token-abc12'', ''tok1'')] [])], sent = []\<rparr>, None) \<and>
   map_exec (\<lambda>(c', w', d, res, e). (apikey c', id_str c', csrf c', e))
     (HTTPGetWithRes exampleLib ((newClient ''http://h'' apikeyConfig)\<lparr>initDone := True\<rparr>)
        \<lparr>pending = [Receive (exampleResponse 200 ''200 OK'' ''abc123''
                             [(''CSRF-Token-abc12'', ''tok1'')] [])], sent = []\<rparr> ''foo'' None) =
     Return (''secret'', ''abc123'', ''tok1'', None)"
  by (simp add: HTTPNewClient_def HTTPGetWithRes_def u_HTTPRequest_def getCidAndCsrf.simps
        handleRequest.simps NewRequest_def exampleLib_def newClient_def apikeyConfig_def
        cookieConfig_def exampleResponse_def setHeaders_def detectChange_def)

subsection \<open>When the session is bootstrapped\<close>

text \<open>
  C5, as stated, fails: building a cookie-mode client sends the bootstrap GET
  to the endpoint.
\<close>

theorem C5_counterexample:
  "map_exec (\<lambda>(c, w, e). (sent w, pending w, initDone c))
     (HTTPNewClient exampleLib ''http://h'' cookieConfig
        \<lparr>pending = [Receive (exampleResponse 200 ''200 OK'' ''abc123''
                               [(''CSRF-Token-abc12'', ''tok1'')] [])], sent = []\<rparr>) =
   Return ([exampleRequest\<lparr>URL := ''http://h''\<rparr>], [], True)"
  by (simp add: HTTPNewClient_def getCidAndCsrf.simps handleRequest.simps NewRequest_def
        exampleLib_def newClient_def cookieConfig_def exampleResponse_def exampleRequest_def
        setHeaders_def detectChange_def)

text \<open>
  C5, amended. \<^verbatim>\<open>HTTPNewClient\<close> runs the bootstrap itself: without an API key
  it sends the GET to the base URL, and \<open>initDone\<close> is set exactly when the
  bootstrap succeeded. A call that begins with \<open>initDone\<close> false runs the
  bootstrap once more; if that fails, the call goes on from the state the
  bootstrap left, returns what its own request returns, and leaves \<open>initDone\<close>
  false; if it succeeds, the call goes on as a call of an initialised client.
\<close>

theorem C5_bootstrap_at_construction_and_lazily:
  "(Apikey cfg = [] \<and> NewRequest lib ''GET'' baseURL None = Inr req0 \<and>
      HTTPNewClient lib baseURL cfg w = Return (c', w', e) \<longrightarrow>
        (\<exists>more. sent w' = sent w @ req0 # more) \<and> initDone c' = (e = None)) \<and>
   (\<not> initDone c \<and> getCidAndCsrf lib c w = Return (c1, w1, Some err1) \<and>
      NewRequest lib m (formatURL c1 u) b = Inr req \<and>
      handleRequest lib c1 w1 req = Return (c2, w2, res, err) \<and> (err = None \<longrightarrow> d = None) \<longrightarrow>
        u_HTTPRequest lib c w m u b d = Return (c2, w2, d, res, err) \<and> \<not> initDone c2) \<and>
   (\<not> initDone c \<and> getCidAndCsrf lib c w = Return (c1, w1, None) \<longrightarrow>
        u_HTTPRequest lib c w m u b d = u_HTTPRequest lib (c1\<lparr>initDone := True\<rparr>) w1 m u b d)"
proof -
  have p1: "(\<exists>more. sent w' = sent w @ req0 # more) \<and> initDone c' = (e = None)"
    if k: "Apikey cfg = []" and nr: "NewRequest lib ''GET'' baseURL None = Inr req0"
      and ret: "HTTPNewClient lib baseURL cfg w = Return (c', w', e)"
  proof -
    let ?c = "newClient baseURL cfg"
    from ret obtain c0 where g: "getCidAndCsrf lib ?c w = Return (c0, w', e)"
      and c': "c' = (if e = None then c0\<lparr>initDone := True\<rparr> else c0)"
      by (auto simp: HTTPNewClient_def split: exec.splits option.splits)
    from run_invariants(2) [of lib ?c w] g have "initDone c0 = False" by (simp add: newClient_def)
    with c' have flag: "initDone c' = (e = None)" by simp
    from g k nr obtain res e0 where hr: "handleRequest lib ?c w req0 = Return (c0, w', res, e0)"
      by (auto simp: getCidAndCsrf.simps newClient_def split: exec.splits option.splits if_splits)
    from handleRequest_needs_outcome [OF hr] obtain req' x rest
      where sh: "setHeaders ?c req0 = Return req'" and pw: "pending w = x # rest" by blast
    from k have "setHeaders ?c req0 = Return req0" by (simp add: setHeaders_fresh newClient_def)
    with sh have req': "req' = req0" by simp
    have "\<exists>more. sent w' = sent w @ req0 # more"
    proof (cases x)
      case (Fail e)
      with hr sh pw req' show ?thesis by (auto simp: handleRequest_Fail)
    next
      case (Receive r)
      with hr sh pw obtain c1 where dc: "detectChange ?c r = Return c1"
        by (auto simp: handleRequest.simps split: exec.splits)
      note eq = handleRequest_Receive [OF sh pw[unfolded Receive] dc, of lib]
      show ?thesis
      proof (cases "StatusCode r = 403 \<and> apikey c1 = []")
        case False
        with hr eq req' show ?thesis by (auto split: if_splits exec.splits)
      next
        case True
        with hr eq obtain e2
          where "getCidAndCsrf lib c1 \<lparr>pending = rest, sent = sent w @ [req']\<rparr> = Return (c0, w', e2)"
          by (auto split: if_splits exec.splits)
        with run_invariants(2) [of lib c1 "\<lparr>pending = rest, sent = sent w @ [req']\<rparr>"] req'
        show ?thesis by auto
      qed
    qed
    with flag show ?thesis by simp
  qed
  have p2: "u_HTTPRequest lib c w m u b d = Return (c2, w2, d, res, err) \<and> \<not> initDone c2"
    if ni: "\<not> initDone c" and g: "getCidAndCsrf lib c w = Return (c1, w1, Some err1)"
      and nr: "NewRequest lib m (formatURL c1 u) b = Inr req"
      and hr: "handleRequest lib c1 w1 req = Return (c2, w2, res, err)"
      and dn: "err = None \<longrightarrow> d = None"
  proof -
    from run_invariants(2) [of lib c w] g ni have "\<not> initDone c1" by simp
    with run_invariants(1) [of lib c1 w1 req] hr have flag: "\<not> initDone c2" by simp
    have "u_HTTPRequest lib c w m u b d = Return (c2, w2, d, res, err)"
    proof (cases err)
      case (Some e)
      with ni g nr hr show ?thesis by (simp add: u_HTTPRequest_def)
    next
      case None
      with hr handleRequest_success [of lib c1 w1 req c2 w2 res]
      obtain r where "res = Some r" "StatusCode r = 200" by blast
      with None ni g nr hr dn show ?thesis by (simp add: u_HTTPRequest_def)
    qed
    with flag show ?thesis by simp
  qed
  have p3: "u_HTTPRequest lib c w m u b d = u_HTTPRequest lib (c1\<lparr>initDone := True\<rparr>) w1 m u b d"
    if "\<not> initDone c" "getCidAndCsrf lib c w = Return (c1, w1, None)"
    using that by (simp add: u_HTTPRequest_def)
  from p1 p2 p3 show ?thesis by blast
qed

theorem C5_bootstrap_at_construction_and_lazily_witness:
  "\<not> initDone (newClient ''http://h'' cookieConfig) \<and>
   getCidAndCsrf exampleLib (newClient ''http://h'' cookieConfig)
       \<lparr>pending = [Fail (TransportError ''connection refused''),
                   Receive (exampleResponse 200 ''200 OK'' [] [] ''{}'')], sent = []\<rparr> =
     Return (newClient ''http://h'' cookieConfig,
             \<lparr>pending = [Receive (exampleResponse 200 ''200 OK'' [] [] ''{}'')],
              sent = [exampleRequest\<lparr>URL := ''http://h''\<rparr>]\<rparr>,
             Some (TransportError ''connection refused'')) \<and>
   u_HTTPRequest exampleLib (newClient ''http://h'' cookieConfig)
       \<lparr>pending = [Fail (TransportError ''connection refused''),
                   Receive (exampleResponse 200 ''200 OK'' [] [] ''{}'')], sent = []\<rparr>
       ''GET'' ''foo'' None None =
     Return (newClient ''http://h'' cookieConfig,
             \<lparr>pending = [], sent = [exampleRequest\<lparr>URL := ''http://h''\<rparr>, exampleRequest]\<rparr>,
             None, Some (exampleResponse 200 ''200 OK'' [] [] ''{}''), None)"
proof -
  let ?c = "newClient ''http://h'' cookieConfig"
  let ?r = "exampleResponse 200 ''200 OK'' [] [] ''{}''"
  let ?w = "\<lparr>pending = [Fail (TransportError ''connection refused''), Receive ?r], sent = []\<rparr>"
  let ?w1 = "\<lparr>pending = [Receive ?r], sent = [exampleRequest\<lparr>URL := ''http://h''\<rparr>]\<rparr>"
  let ?w2 = "\<lparr>pending = [], sent = [exampleRequest\<lparr>URL := ''http://h''\<rparr>, exampleRequest]\<rparr>"
  have ni: "\<not> initDone ?c" by (simp add: newClient_def)
  have g: "getCidAndCsrf exampleLib ?c ?w = Return (?c, ?w1, Some (TransportError ''connection refused''))"
    by (simp add: getCidAndCsrf.simps handleRequest.simps NewRequest_def exampleLib_def
          newClient_def cookieConfig_def exampleRequest_def setHeaders_def)
  have nr: "NewRequest exampleLib ''GET'' (formatURL ?c ''foo'') None = Inr exampleRequest"
    by (simp add: NewRequest_def exampleLib_def newClient_def cookieConfig_def exampleRequest_def
          formatURL_def HasSuffix_def TrimLeft_def)
  have hr: "handleRequest exampleLib ?c ?w1 exampleRequest = Return (?c, ?w2, Some ?r, None)"
    by (simp add: handleRequest.simps newClient_def cookieConfig_def exampleRequest_def
          exampleResponse_def setHeaders_def detectChange_def)
  from C5_bootstrap_at_construction_and_lazily [THEN conjunct2, THEN conjunct1, rule_format,
      of ?c exampleLib ?w ?c ?w1 _ "''GET''" "''foo''" None exampleRequest ?c ?w2 "Some ?r" None None]
    ni g nr hr
  show ?thesis by simp
qed

subsection \<open>The session refresh on a 403\<close>

text \<open>
  In cookie mode, a 403 makes \<^verbatim>\<open>handleRequest\<close> call \<^verbatim>\<open>getCidAndCsrf\<close>, whose
  GET goes through \<^verbatim>\<open>handleRequest\<close> again: while the server answers 403, each
  refresh starts another one, and no finite number of 403 responses lets the call
  return.
\<close>

lemma refresh_on_403_starves:
  assumes k: "apikey c = []" and t: "csrf c = []" and st: "StatusCode r = 403"
    and dc: "detectChange c r = Return c" and nr: "NewRequest_err lib ''GET'' (endpoint c) = None"
  shows "handleRequest lib c \<lparr>pending = replicate n (Receive r), sent = s\<rparr> req = Starved"
proof (induction n arbitrary: s req)
  case 0
  from t obtain req' where "setHeaders c req = Return req'"
    using setHeaders_Return_iff [of c req] by blast
  then show ?case by (simp add: handleRequest.simps)
next
  case (Suc n)
  from t obtain req' where sh: "setHeaders c req = Return req'"
    using setHeaders_Return_iff [of c req] by blast
  have pw: "pending \<lparr>pending = replicate (Suc n) (Receive r), sent = s\<rparr> = Receive r # replicate n (Receive r)"
    by simp
  from nr obtain req0 where "NewRequest lib ''GET'' (endpoint c) None = Inr req0"
    by (simp add: NewRequest_def)
  with k Suc.IH [of "s @ [req']" req0]
  have "getCidAndCsrf lib c \<lparr>pending = replicate n (Receive r), sent = s @ [req']\<rparr> = Starved"
    by (simp add: getCidAndCsrf.simps)
  with k st show ?case
    unfolding handleRequest_Receive [OF sh pw dc, of lib] by simp
qed

text \<open>
  C1 says that a 403 in cookie mode triggers exactly one bootstrap call, that the
  refresh never recurses, and that the request fails with "Invalid CSRF token". On
  the code, a request answered by 403 whose bootstrap is answered by 403 again
  sends a second bootstrap GET before it fails with "Invalid CSRF token", and
  against a server that answers 403 every time the call does not return.
\<close>

theorem C1_refresh_recurses:
  "map_exec (\<lambda>(c, w, res, e). (map URL (sent w), e))
     (handleRequest exampleLib (newClient ''http://h'' cookieConfig)
        \<lparr>pending = [Receive (exampleResponse 403 ''403 Forbidden'' [] [] []),
                    Receive (exampleResponse 403 ''403 Forbidden'' [] [] []),
                    Receive (exampleResponse 200 ''200 OK'' ''abc123'' [(''CSRF-Token-abc12'', ''tok1'')] [])],
         sent = []\<rparr> exampleRequest) =
     Return ([''http://h/rest/foo'', ''http://h'', ''http://h''],
             Some (errors_New ''Invalid CSRF token'')) \<and>
   (\<forall>n. handleRequest exampleLib (newClient ''http://h'' cookieConfig)
          \<lparr>pending = replicate n (Receive (exampleResponse 403 ''403 Forbidden'' [] [] [])), sent = []\<rparr>
          exampleRequest = Starved)"
proof -
  let ?c = "newClient ''http://h'' cookieConfig"
  let ?r = "exampleResponse 403 ''403 Forbidden'' [] [] []"
  have a: "map_exec (\<lambda>(c, w, res, e). (map URL (sent w), e))
     (handleRequest exampleLib ?c
        \<lparr>pending = [Receive ?r, Receive ?r,
                    Receive (exampleResponse 200 ''200 OK'' ''abc123'' [(''CSRF-Token-abc12'', ''tok1'')] [])],
         sent = []\<rparr> exampleRequest) =
     Return ([''http://h/rest/foo'', ''http://h'', ''http://h''],
             Some (errors_New ''Invalid CSRF token''))"
    by (simp add: getCidAndCsrf.simps handleRequest.simps NewRequest_def exampleLib_def
          newClient_def cookieConfig_def exampleResponse_def exampleRequest_def
          setHeaders_def detectChange_def Header_Set_def)
  have b: "handleRequest exampleLib ?c \<lparr>pending = replicate n (Receive ?r), sent = []\<rparr> exampleRequest = Starved"
    for n
    by (rule refresh_on_403_starves)
       (simp_all add: newClient_def cookieConfig_def exampleResponse_def detectChange_def exampleLib_def)
  from a b show ?thesis by blast
qed

subsection \<open>Panics\<close>

text \<open>
  C2 says that attaching and extracting credentials never panic, whatever the
  stored client ID. On the code, \<^verbatim>\<open>c.id[:5]\<close> panics for an ID shorter than 5
  bytes: in the cookie scan, when the response that brings the short ID also
  brings a cookie, and in the next request, when a CSRF token is stored and the
  server has replaced the ID by a short one. A JSON error body whose "error"
  field is not a string panics in \<^verbatim>\<open>err.(string)\<close>.
\<close>

theorem C2_short_id_panics:
  "HTTPNewClient exampleLib ''http://h'' cookieConfig
       \<lparr>pending = [Receive (exampleResponse 200 ''200 OK'' ''abc'' [(''lang'', ''en'')] [])], sent = []\<rparr> =
     Panic SliceBoundsOutOfRange \<and>
   map_exec (\<lambda>(c, w, d, res, e). (id_str c, csrf c, e))
     (u_HTTPRequest exampleLib
        ((newClient ''http://h'' cookieConfig)\<lparr>initDone := True, id_str := ''abc123'', csrf := ''tok1''\<rparr>)
        \<lparr>pending = [Receive (exampleResponse 200 ''200 OK'' ''abc'' [] [])], sent = []\<rparr>
        ''GET'' ''foo'' None None) =
     Return (''abc'', ''tok1'', None) \<and>
   u_HTTPRequest exampleLib
        ((newClient ''http://h'' cookieConfig)\<lparr>initDone := True, id_str := ''abc'', csrf := ''tok1''\<rparr>)
        \<lparr>pending = [Receive (exampleResponse 200 ''200 OK'' [] [] [])], sent = []\<rparr>
        ''GET'' ''foo'' None None =
     Panic SliceBoundsOutOfRange \<and>
   handleRequest exampleLib (newClient ''http://h'' cookieConfig)
       \<lparr>pending = [Receive (exampleResponse 500 ''500 Internal Server Error'' [] [] ''{\"error\":5}'')],
        sent = []\<rparr> exampleRequest =
     Panic InterfaceConversion"
  by (simp add: HTTPNewClient_def u_HTTPRequest_def getCidAndCsrf.simps handleRequest.simps
        NewRequest_def exampleLib_def newClient_def cookieConfig_def exampleResponse_def
        exampleRequest_def setHeaders_def detectChange_def Header_Set_def formatURL_def
        HasSuffix_def TrimLeft_def otherStatus_def ResponseToBArray_def)

subsection \<open>The error of the other statuses\<close>

text \<open>
  The second \<^verbatim>\<open>ResponseToBArray\<close> of the branch reads a body that the first one
  has consumed, so the trimmed body is always empty: the branch returns the
  "error" field of the JSON body or the unknown-status error, never the body text.
\<close>

lemma otherStatus_results:
  "otherStatus lib r =
     (case json_Unmarshal lib (Body r) ''error'' of
        Some (JString s) \<Rightarrow> Return (fmt_Errorf s)
      | Some JOther \<Rightarrow> Panic InterfaceConversion
      | None \<Rightarrow> Return (errors_New (''Unknown HTTP status returned: '' @ Status r)))"
  by (simp add: otherStatus_def ResponseToBArray_def TrimSpace_def split: option.splits jvalue.splits)

text \<open>
  C4 says that a status other than 200, 401, 403 and 404 gives the "error" field
  of the JSON body, else the trimmed body text when not empty, else the
  unknown-status error. On the code, a 500 whose body is the text "oops" gives the
  unknown-status error, not "oops"; a 500 with the body {"error":"disk full"}
  gives "disk full".
\<close>

theorem C4_trimmed_body_never_used:
  "map_exec (\<lambda>(c, w, res, e). e)
     (handleRequest exampleLib (newClient ''http://h'' cookieConfig)
        \<lparr>pending = [Receive (exampleResponse 500 ''500 Internal Server Error'' [] [] ''oops'')],
         sent = []\<rparr> exampleRequest) =
     Return (Some (errors_New ''Unknown HTTP status returned: 500 Internal Server Error'')) \<and>
   map_exec (\<lambda>(c, w, res, e). e)
     (handleRequest exampleLib (newClient ''http://h'' cookieConfig)
        \<lparr>pending = [Receive (exampleResponse 500 ''500 Internal Server Error'' [] []
                               ''{\"error\":\"disk full\"}'')],
         sent = []\<rparr> exampleRequest) =
     Return (Some (fmt_Errorf ''disk full''))"
  by (simp add: handleRequest.simps exampleLib_def newClient_def cookieConfig_def
        exampleResponse_def exampleRequest_def setHeaders_def detectChange_def
        otherStatus_def ResponseToBArray_def TrimSpace_def)

subsection \<open>URL joining\<close>

text \<open>
  C8. For every endpoint in \<open>{"http://h", "http://h/"}\<close>, prefix in
  \<open>{"rest", "/rest/", "rest/"}\<close> and path in \<open>{"foo", "/foo"}\<close>, \<^verbatim>\<open>formatURL\<close>
  composes \<open>"http://h/rest/foo"\<close>: one slash between each pair of segments,
  whatever the slashes of the three inputs.
\<close>

theorem C8_formatURL_slash_variation:
  "e \<in> {''http://h'', ''http://h/''} \<Longrightarrow> p \<in> {''rest'', ''/rest/'', ''rest/''} \<Longrightarrow>
   q \<in> {''foo'', ''/foo''} \<Longrightarrow>
   formatURL (c\<lparr>endpoint := e, conf := (conf c)\<lparr>URLPrefix := p\<rparr>\<rparr>) q = ''http://h/rest/foo''"
  by (auto simp: formatURL_def HasSuffix_def TrimLeft_def)

theorem C8_formatURL_slash_variation_witness:
  "''http://h/'' \<in> {''http://h'', ''http://h/''} \<and> ''/rest/'' \<in> {''rest'', ''/rest/'', ''rest/''} \<and>
   ''/foo'' \<in> {''foo'', ''/foo''} \<and>
   formatURL ((newClient ''x'' cookieConfig)
       \<lparr>endpoint := ''http://h/'', conf := (conf (newClient ''x'' cookieConfig))\<lparr>URLPrefix := ''/rest/''\<rparr>\<rparr>)
     ''/foo'' = ''http://h/rest/foo''"
  using C8_formatURL_slash_variation [of "''http://h/''" "''/rest/''" "''/foo''" "newClient ''x'' cookieConfig"]
  by simp

end
